theory Spec2Isabelle
  imports Complex_Main "HOL-Library.Char_ord" "HOL-Library.List_Lexorder"
    "HOL-Library.Product_Lexorder" "HOL-Library.Multiset"
begin

section \<open>Calendar dates\<close>

text \<open>
  The program handles calendar dates through Python's \<^verbatim>\<open>datetime.date\<close>: a value with
  the three fields year, month and day, compared as the triple (year, month, day).
  The helpers below follow the pure-Python \<^verbatim>\<open>datetime\<close> module function by function.
\<close>

record date =
  year :: nat
  month :: nat
  day :: nat

definition date_le :: "date \<Rightarrow> date \<Rightarrow> bool" where
  "date_le a b \<longleftrightarrow>
     year a < year b \<or>
     (year a = year b \<and> (month a < month b \<or> (month a = month b \<and> day a \<le> day b)))"

definition DAYS_IN_MONTH :: "nat list" where
  \<comment> \<open>index 0 is the placeholder of the Python table and is never read\<close>
  "DAYS_IN_MONTH = [0, 31, 28, 31, 30, 31, 30, 31, 31, 30, 31, 30, 31]"

definition DAYS_BEFORE_MONTH :: "nat list" where
  "DAYS_BEFORE_MONTH = [0, 0, 31, 59, 90, 120, 151, 181, 212, 243, 273, 304, 334]"

definition is_leap :: "nat \<Rightarrow> bool" where
  "is_leap y \<longleftrightarrow> y mod 4 = 0 \<and> (y mod 100 \<noteq> 0 \<or> y mod 400 = 0)"

definition days_before_year :: "nat \<Rightarrow> nat" where
  "days_before_year yr = (let y = yr - 1 in y * 365 + y div 4 - y div 100 + y div 400)"

definition days_in_month :: "nat \<Rightarrow> nat \<Rightarrow> nat" where
  "days_in_month y m = (if m = 2 \<and> is_leap y then 29 else DAYS_IN_MONTH ! m)"

definition days_before_month :: "nat \<Rightarrow> nat \<Rightarrow> nat" where
  "days_before_month y m = DAYS_BEFORE_MONTH ! m + (if 2 < m \<and> is_leap y then 1 else 0)"

definition valid_date :: "date \<Rightarrow> bool" where
  \<comment> \<open>the field check of the \<^verbatim>\<open>date\<close> constructor: year 1..9999, month 1..12, day 1..dim\<close>
  "valid_date d \<longleftrightarrow>
     1 \<le> year d \<and> year d \<le> 9999 \<and> 1 \<le> month d \<and> month d \<le> 12 \<and>
     1 \<le> day d \<and> day d \<le> days_in_month (year d) (month d)"

definition toordinal :: "date \<Rightarrow> nat" where
  "toordinal d = days_before_year (year d) + days_before_month (year d) (month d) + day d"

definition weekday :: "date \<Rightarrow> nat" where
  \<comment> \<open>Monday is 0, Sunday is 6\<close>
  "weekday d = (toordinal d + 6) mod 7"

definition date_min :: date where
  "date_min = \<lparr>year = 1, month = 1, day = 1\<rparr>"

definition pred_day :: "date \<Rightarrow> date" where
  \<comment> \<open>the calendar day before \<open>d\<close>, for \<open>d\<close> later than \<open>date_min\<close>\<close>
  "pred_day d =
     (if 1 < day d then d\<lparr>day := day d - 1\<rparr>
      else if 1 < month d
      then d\<lparr>month := month d - 1, day := days_in_month (year d) (month d - 1)\<rparr>
      else \<lparr>year = year d - 1, month = 12, day = 31\<rparr>)"

text \<open>
  \<^verbatim>\<open>d - timedelta(days=n)\<close> for \<open>n \<ge> 0\<close>: the date \<open>n\<close> days before \<open>d\<close>. Python computes
  it as \<^verbatim>\<open>fromordinal(d.toordinal() - n)\<close> and raises \<^verbatim>\<open>OverflowError\<close> when the ordinal
  would drop below 1; the model walks back one day at a time and returns \<open>None\<close> for
  the overflow.
\<close>

fun date_sub_days :: "date \<Rightarrow> nat \<Rightarrow> date option" where
  "date_sub_days d 0 = Some d"
| "date_sub_days d (Suc n) = (if d = date_min then None else date_sub_days (pred_day d) n)"

section \<open>Parsing \<^verbatim>\<open>YYYY-MM-DD\<close>\<close>

text \<open>
  \<^verbatim>\<open>datetime.strptime(s, "%Y-%m-%d")\<close> matches \<open>s\<close> from its start against the regular
  expression
  \<^verbatim>\<open>(\d\d\d\d)-(1[0-2]|0[1-9]|[1-9])-(3[0-1]|[1-2]\d|0[1-9]|[1-9]| [1-9])\<close>,
  raises \<^verbatim>\<open>ValueError\<close> if there is no match or if input remains after the match, and
  then builds the date, which raises \<^verbatim>\<open>ValueError\<close> for a year, month or day out of
  range. \<open>None\<close> stands for the \<^verbatim>\<open>ValueError\<close>.
\<close>

definition is_digit :: "char \<Rightarrow> bool" where
  "is_digit c \<longleftrightarrow> c \<in> set ''0123456789''"

definition is_digit19 :: "char \<Rightarrow> bool" where
  "is_digit19 c \<longleftrightarrow> c \<in> set ''123456789''"

definition digit_val :: "char \<Rightarrow> nat" where
  "digit_val c = of_char c - 48"

fun match_month :: "string \<Rightarrow> (nat \<times> string) option" where
  "match_month (a # b # r) =
     (if a = CHR ''1'' \<and> b \<in> set ''012'' then Some (10 + digit_val b, r)
      else if a = CHR ''0'' \<and> is_digit19 b then Some (digit_val b, r)
      else if is_digit19 a then Some (digit_val a, b # r)
      else None)"
| "match_month [a] = (if is_digit19 a then Some (digit_val a, []) else None)"
| "match_month [] = None"

fun match_day :: "string \<Rightarrow> (nat \<times> string) option" where
  "match_day (a # b # r) =
     (if a = CHR ''3'' \<and> b \<in> set ''01'' then Some (30 + digit_val b, r)
      else if a \<in> set ''12'' \<and> is_digit b then Some (10 * digit_val a + digit_val b, r)
      else if a = CHR ''0'' \<and> is_digit19 b then Some (digit_val b, r)
      else if is_digit19 a then Some (digit_val a, b # r)
      else if a = CHR '' '' \<and> is_digit19 b then Some (digit_val b, r)
      else None)"
| "match_day [a] = (if is_digit19 a then Some (digit_val a, []) else None)"
| "match_day [] = None"

fun strptime_ymd :: "string \<Rightarrow> date option" where
  "strptime_ymd (y1 # y2 # y3 # y4 # r) =
     (if is_digit y1 \<and> is_digit y2 \<and> is_digit y3 \<and> is_digit y4 then
        (case r of
           c1 # r1 \<Rightarrow>
             (if c1 = CHR ''-'' then
                (case match_month r1 of
                   Some (m, c2 # r2) \<Rightarrow>
                     (if c2 = CHR ''-'' then
                        (case match_day r2 of
                           Some (d, []) \<Rightarrow>
                             (let dt = \<lparr>year = 1000 * digit_val y1 + 100 * digit_val y2
                                               + 10 * digit_val y3 + digit_val y4,
                                        month = m, day = d\<rparr>
                              in if valid_date dt then Some dt else None)
                         | _ \<Rightarrow> None)
                      else None)
                 | _ \<Rightarrow> None)
              else None)
         | [] \<Rightarrow> None)
      else None)"
| "strptime_ymd _ = None"

section \<open>The transaction store\<close>

text \<open>
  A stored transaction is the dictionary built by \<^verbatim>\<open>add_transaction\<close>; the global list
  \<^verbatim>\<open>transactions\<close> is the store, passed and returned explicitly. Amounts are Python
  floats; a finite float is modelled by the real number it denotes, and the
  floating-point operations on amounts are parameters (see \<open>float_ops\<close> below). The
  timestamp is the ISO string of the clock reading, compared as a string.
\<close>

record transaction =
  tx_id :: nat
  tx_type :: string
  tx_category :: string
  tx_amount :: real
  tx_description :: string
  tx_date :: string
  tx_timestamp :: string

definition EXPENSE_CATEGORIES :: "string list" where
  "EXPENSE_CATEGORIES =
     [''Food & Dining'', ''Transportation'', ''Shopping'', ''Entertainment'',
      ''Bills & Utilities'', ''Healthcare'', ''Travel'', ''Education'',
      ''Personal Care'', ''Home & Garden'', ''Other'']"

definition INCOME_CATEGORIES :: "string list" where
  "INCOME_CATEGORIES =
     [''Salary'', ''Freelance'', ''Business'', ''Investments'',
      ''Rental Income'', ''Gifts'', ''Other'']"

text \<open>
  The status message returned by \<^verbatim>\<open>add_transaction\<close>, one constructor per message:
  \<open>InvalidAmount\<close> is "Please enter a valid amount", \<open>MissingCategory\<close> is "Please select
  a category", \<open>InvalidDate\<close> is "Please enter date in YYYY-MM-DD format", and
  \<open>Added ty a\<close> is the success message naming the type and the amount.
\<close>

datatype status = InvalidAmount | MissingCategory | InvalidDate | Added string real

fun is_failure :: "status \<Rightarrow> bool" where
  "is_failure (Added ty a) = False"
| "is_failure _ = True"

text \<open>A row of the table shown for the recent transactions.\<close>

record display_row =
  Date :: date
  Type :: string
  Category :: string
  Amount :: real
  Description :: string

text \<open>
  \<^verbatim>\<open>pd.to_datetime\<close> is a parameter \<open>pdt\<close> of every function that calls it: a parser from
  strings to dates, \<open>None\<close> when pandas raises. Converting the column \<^verbatim>\<open>df['date']\<close>
  raises as soon as one entry does; a converted row is the transaction with its date.
\<close>

type_synonym row = "transaction \<times> date"

fun to_datetime_column :: "(string \<Rightarrow> date option) \<Rightarrow> transaction list \<Rightarrow> row list option" where
  "to_datetime_column pdt [] = Some []"
| "to_datetime_column pdt (t # ts) =
     (case pdt (tx_date t) of
        None \<Rightarrow> None
      | Some d \<Rightarrow>
          (case to_datetime_column pdt ts of
             None \<Rightarrow> None
           | Some rs \<Rightarrow> Some ((t, d) # rs)))"

text \<open>
  \<^verbatim>\<open>df.sort_values(col, ascending=False)\<close> on one column: pandas reverses the rows, sorts
  them ascending by the key with numpy's sort of the default kind and reverses the
  result. The sort algorithm is the parameter \<open>srt\<close>. All that is known of it is
  \<open>ascending_sort\<close>: it rearranges the rows into ascending key order. Which order it
  leaves rows of equal key in depends on the algorithm and the number of rows, and
  is not fixed by the model.
\<close>

type_synonym sorter = "(row \<Rightarrow> string) \<Rightarrow> row list \<Rightarrow> row list"

definition ascending_sort :: "sorter \<Rightarrow> bool" where
  "ascending_sort srt \<longleftrightarrow>
     (\<forall>key rows. mset (srt key rows) = mset rows \<and> sorted (map key (srt key rows)))"

definition sort_values_desc :: "sorter \<Rightarrow> (row \<Rightarrow> string) \<Rightarrow> row list \<Rightarrow> row list" where
  "sort_values_desc srt key rows = rev (srt key (rev rows))"

definition recent_rows :: "sorter \<Rightarrow> row list \<Rightarrow> row list" where
  \<comment> \<open>\<^verbatim>\<open>df.sort_values('timestamp', ascending=False).head(10)\<close>\<close>
  "recent_rows srt rs = take 10 (sort_values_desc srt (\<lambda>r. tx_timestamp (fst r)) rs)"

definition display :: "row \<Rightarrow> display_row" where
  "display r =
     \<lparr>Date = snd r, Type = tx_type (fst r), Category = tx_category (fst r),
      Amount = tx_amount (fst r), Description = tx_description (fst r)\<rparr>"

definition get_recent_transactions ::
  "(string \<Rightarrow> date option) \<Rightarrow> sorter \<Rightarrow> transaction list \<Rightarrow> display_row list" where
  \<comment> \<open>the empty list is the empty table with the five display columns, also returned when
      an exception is caught\<close>
  "get_recent_transactions pdt srt transactions =
     (if transactions = [] then []
      else (case to_datetime_column pdt transactions of
              None \<Rightarrow> []
            | Some df \<Rightarrow> map display (recent_rows srt df)))"

text \<open>
  \<^verbatim>\<open>add_transaction\<close> with the clock reading \<open>now\<close> (the ISO string of
  \<^verbatim>\<open>datetime.now()\<close>) and the store made explicit; \<open>pdt\<close> and \<open>srt\<close> are handed on to
  \<^verbatim>\<open>get_recent_transactions\<close>. It returns the pair of outputs
  (status message, recent transactions) and the store after the call. \<open>None\<close> is
  Python's \<^verbatim>\<open>None\<close>; \<^verbatim>\<open>not amount\<close> holds for \<^verbatim>\<open>None\<close> and for zero,
  \<^verbatim>\<open>not category\<close> for \<^verbatim>\<open>None\<close> and for the empty string. With these argument
  types no statement of the body raises anything but the \<^verbatim>\<open>ValueError\<close> of
  \<^verbatim>\<open>strptime\<close>, so the outer \<^verbatim>\<open>except Exception\<close> has no branch here.
\<close>

definition add_transaction ::
  "(string \<Rightarrow> date option) \<Rightarrow> sorter \<Rightarrow> string \<Rightarrow>
   string \<Rightarrow> string option \<Rightarrow> real option \<Rightarrow> string option \<Rightarrow> string \<Rightarrow>
   transaction list \<Rightarrow> (status \<times> display_row list) \<times> transaction list" where
  "add_transaction pdt srt now transaction_type category amount description date transactions =
     (case amount of
        None \<Rightarrow> ((InvalidAmount, get_recent_transactions pdt srt transactions), transactions)
      | Some a \<Rightarrow>
          if a = 0 \<or> a \<le> 0
          then ((InvalidAmount, get_recent_transactions pdt srt transactions), transactions)
          else
            (case category of
               None \<Rightarrow> ((MissingCategory, get_recent_transactions pdt srt transactions), transactions)
             | Some c \<Rightarrow>
                 if c = []
                 then ((MissingCategory, get_recent_transactions pdt srt transactions), transactions)
                 else
                   (case strptime_ymd date of
                      None \<Rightarrow> ((InvalidDate, get_recent_transactions pdt srt transactions), transactions)
                    | Some parsed \<Rightarrow>
                        (let transaction =
                               \<lparr>tx_id = length transactions + 1,
                                tx_type = transaction_type,
                                tx_category = c,
                                tx_amount = a,
                                tx_description =
                                  (case description of
                                     None \<Rightarrow> ''No description''
                                   | Some s \<Rightarrow> if s = [] then ''No description'' else s),
                                tx_date = date,
                                tx_timestamp = now\<rparr>;
                             transactions' = transactions @ [transaction]
                         in ((Added transaction_type a, get_recent_transactions pdt srt transactions'),
                             transactions')))))"

text \<open>The inputs that pass none, one or all of the three checks.\<close>

definition amount_ok :: "real option \<Rightarrow> bool" where
  "amount_ok amount \<longleftrightarrow> (case amount of None \<Rightarrow> False | Some a \<Rightarrow> 0 < a)"

definition category_ok :: "string option \<Rightarrow> bool" where
  "category_ok category \<longleftrightarrow> (case category of None \<Rightarrow> False | Some c \<Rightarrow> c \<noteq> [])"

definition date_ok :: "string \<Rightarrow> bool" where
  "date_ok date \<longleftrightarrow> strptime_ymd date \<noteq> None"

text \<open>
  The stores the program can hold: the empty list at start, and whatever a call of
  \<^verbatim>\<open>add_transaction\<close> leaves behind. Nothing else writes the global list.
\<close>

inductive reachable :: "transaction list \<Rightarrow> bool" where
  init: "reachable []"
| step: "reachable ts \<Longrightarrow>
         add_transaction pdt srt now ty category amount description date ts = (out, ts') \<Longrightarrow>
         reachable ts'"

definition max_id :: "transaction list \<Rightarrow> nat" where
  \<comment> \<open>the largest id in the store, 0 for the empty store\<close>
  "max_id ts = fold max (map tx_id ts) 0"

definition update_category_choices :: "string \<Rightarrow> string list" where
  \<comment> \<open>the choices the category dropdown is given for a transaction type\<close>
  "update_category_choices transaction_type =
     (if transaction_type = ''Income'' then INCOME_CATEGORIES else EXPENSE_CATEGORIES)"

section \<open>Filtering by period\<close>

text \<open>
  A data frame is either \<^verbatim>\<open>pd.DataFrame()\<close>, which has no columns and no rows, or a frame
  with the columns of the transactions and a list of rows. Reading a column of the
  first raises \<^verbatim>\<open>KeyError\<close>; \<^verbatim>\<open>df.empty\<close> holds for the first and for a frame without
  rows.
\<close>

datatype dataframe = NoColumns | Frame "row list"

datatype error = ValueError | OverflowError | KeyError string

fun frame_rows :: "dataframe \<Rightarrow> row list" where
  "frame_rows NoColumns = []"
| "frame_rows (Frame rs) = rs"

fun empty_df :: "dataframe \<Rightarrow> bool" where
  "empty_df NoColumns = True"
| "empty_df (Frame rs) = (rs = [])"

definition truthy :: "string option \<Rightarrow> bool" where
  \<comment> \<open>Python's truth value of an optional string: false for \<^verbatim>\<open>None\<close> and for \<^verbatim>\<open>""\<close>\<close>
  "truthy s \<longleftrightarrow> (case s of None \<Rightarrow> False | Some x \<Rightarrow> x \<noteq> [])"

text \<open>
  The body of the \<^verbatim>\<open>try\<close> block of \<^verbatim>\<open>filter_transactions_by_period\<close>, with the date
  \<open>today\<close> read from the clock as a parameter. \<open>Inl\<close> is an exception raised inside
  the block.
\<close>

definition filter_body ::
  "(string \<Rightarrow> date option) \<Rightarrow> date \<Rightarrow> string \<Rightarrow> string option \<Rightarrow> string option \<Rightarrow>
   transaction list \<Rightarrow> error + dataframe" where
  "filter_body pdt today period start_date end_date transactions =
     (if transactions = [] then Inr NoColumns
      else
        (case to_datetime_column pdt transactions of
           None \<Rightarrow> Inl ValueError
         | Some df \<Rightarrow>
             if period = ''Today'' then Inr (Frame (filter (\<lambda>r. snd r = today) df))
             else if period = ''This Week'' then
               (case date_sub_days today (weekday today) of
                  None \<Rightarrow> Inl OverflowError
                | Some start_week \<Rightarrow>
                    Inr (Frame (filter (\<lambda>r. date_le start_week (snd r)) df)))
             else if period = ''This Month'' then
               (let start_month = today\<lparr>day := 1\<rparr>
                in Inr (Frame (filter (\<lambda>r. date_le start_month (snd r)) df)))
             else if period = ''This Year'' then
               (let start_year = today\<lparr>month := 1, day := 1\<rparr>
                in Inr (Frame (filter (\<lambda>r. date_le start_year (snd r)) df)))
             else if period = ''Custom Range'' then
               (if truthy start_date \<and> truthy end_date then
                  (case pdt (case start_date of Some s \<Rightarrow> s | None \<Rightarrow> []) of
                     None \<Rightarrow> Inl ValueError
                   | Some sd \<Rightarrow>
                       (case pdt (case end_date of Some e \<Rightarrow> e | None \<Rightarrow> []) of
                          None \<Rightarrow> Inl ValueError
                        | Some ed \<Rightarrow>
                            Inr (Frame (filter (\<lambda>r. date_le sd (snd r) \<and> date_le (snd r) ed) df))))
                else Inr (Frame df))
             else Inr (Frame df)))"

definition filter_transactions_by_period ::
  "(string \<Rightarrow> date option) \<Rightarrow> date \<Rightarrow> string \<Rightarrow> string option \<Rightarrow> string option \<Rightarrow>
   transaction list \<Rightarrow> dataframe" where
  \<comment> \<open>\<^verbatim>\<open>except Exception\<close>: print the error and return \<^verbatim>\<open>pd.DataFrame()\<close>\<close>
  "filter_transactions_by_period pdt today period start_date end_date transactions =
     (case filter_body pdt today period start_date end_date transactions of
        Inl e \<Rightarrow> NoColumns
      | Inr df \<Rightarrow> df)"

section \<open>Summary and charts\<close>

text \<open>
  \<^verbatim>\<open>df[df['type'] == ty]\<close>: the rows of one type; the column read raises \<^verbatim>\<open>KeyError\<close>
  on the frame without columns.
\<close>

fun select_type :: "string \<Rightarrow> dataframe \<Rightarrow> error + row list" where
  "select_type ty NoColumns = Inl (KeyError ''type'')"
| "select_type ty (Frame rs) = Inr (filter (\<lambda>r. tx_type (fst r) = ty) rs)"

text \<open>
  The amounts are IEEE doubles, and every sum and difference of amounts is rounded.
  How pandas and numpy add up a column (in which order, with which compensation) is
  library code, so the three operations the program uses are parameters:
  \<open>series_sum\<close> is \<^verbatim>\<open>Series.sum()\<close> on a column of amounts, \<open>group_sum\<close> is the sum
  that \<^verbatim>\<open>groupby(...)['amount'].sum()\<close> forms of the amounts of one group, and
  \<open>float_sub\<close> is the subtraction of two floats.
\<close>

record float_ops =
  series_sum :: "real list \<Rightarrow> real"
  group_sum :: "real list \<Rightarrow> real"
  float_sub :: "real \<Rightarrow> real \<Rightarrow> real"

definition amounts :: "row list \<Rightarrow> real list" where
  \<comment> \<open>the column \<^verbatim>\<open>rows['amount']\<close>\<close>
  "amounts rs = map (\<lambda>r. tx_amount (fst r)) rs"

text \<open>
  \<^verbatim>\<open>rows.groupby(key)['amount'].sum().reset_index()\<close>: one entry per key that occurs,
  in ascending key order, with the sum \<open>gsum\<close> of the amounts of the rows of that key.
\<close>

definition group_keys :: "(row \<Rightarrow> 'k::linorder) \<Rightarrow> row list \<Rightarrow> 'k list" where
  "group_keys key rs = sort (remdups (map key rs))"

definition group_rows :: "(row \<Rightarrow> 'k) \<Rightarrow> row list \<Rightarrow> 'k \<Rightarrow> row list" where
  "group_rows key rs k = filter (\<lambda>r. key r = k) rs"

definition groupby_sum ::
  "(real list \<Rightarrow> real) \<Rightarrow> (row \<Rightarrow> 'k::linorder) \<Rightarrow> row list \<Rightarrow> ('k \<times> real) list" where
  "groupby_sum gsum key rs =
     map (\<lambda>k. (k, gsum (amounts (group_rows key rs k)))) (group_keys key rs)"

text \<open>
  The summary is the Markdown text with the four numbers formatted into it; the model
  keeps the four numbers. \<open>NoDataAvailable\<close> is the text "No data available for the
  selected period".
\<close>

record summary =
  total_income :: real
  total_expenses :: real
  net_balance :: real
  total_transactions :: nat

datatype summary_cards = NoDataAvailable | SummaryText summary

definition create_summary_cards ::
  "(string \<Rightarrow> date option) \<Rightarrow> float_ops \<Rightarrow> date \<Rightarrow> string \<Rightarrow> string option \<Rightarrow>
   string option \<Rightarrow>
   transaction list \<Rightarrow> summary_cards" where
  "create_summary_cards pdt fl today period start_date end_date transactions =
     (let df = filter_transactions_by_period pdt today period start_date end_date transactions
      in if empty_df df then NoDataAvailable
         else
           (let total_income =
                  series_sum fl (amounts (filter (\<lambda>r. tx_type (fst r) = ''Income'') (frame_rows df)));
                total_expenses =
                  series_sum fl (amounts (filter (\<lambda>r. tx_type (fst r) = ''Expense'') (frame_rows df)));
                net_balance = float_sub fl total_income total_expenses
            in SummaryText \<lparr>total_income = total_income, total_expenses = total_expenses,
                             net_balance = net_balance,
                             total_transactions = length (frame_rows df)\<rparr>))"

text \<open>
  A figure is what the chart is drawn from: an empty figure with a text annotation, the
  category totals of a pie chart, the traces of the trend chart (one per type that has
  data, each a list of points keyed by (year, month, day)), or the totals per
  (category, type) of the bar chart.
\<close>

datatype figure =
    Annotation string
  | Pie "(string \<times> real) list"
  | Trend "(string \<times> ((nat \<times> nat \<times> nat) \<times> real) list) list"
  | Bar "((string \<times> string) \<times> real) list"

definition create_expense_pie_chart ::
  "(string \<Rightarrow> date option) \<Rightarrow> float_ops \<Rightarrow> date \<Rightarrow> string \<Rightarrow> string option \<Rightarrow>
   string option \<Rightarrow>
   transaction list \<Rightarrow> error + figure" where
  "create_expense_pie_chart pdt fl today period start_date end_date transactions =
     (let df = filter_transactions_by_period pdt today period start_date end_date transactions
      in case select_type ''Expense'' df of
           Inl e \<Rightarrow> Inl e
         | Inr expense_df \<Rightarrow>
             if expense_df = [] then Inr (Annotation ''No expense data available'')
             else Inr (Pie (groupby_sum (group_sum fl) (\<lambda>r. tx_category (fst r)) expense_df)))"

definition create_income_pie_chart ::
  "(string \<Rightarrow> date option) \<Rightarrow> float_ops \<Rightarrow> date \<Rightarrow> string \<Rightarrow> string option \<Rightarrow>
   string option \<Rightarrow>
   transaction list \<Rightarrow> error + figure" where
  "create_income_pie_chart pdt fl today period start_date end_date transactions =
     (let df = filter_transactions_by_period pdt today period start_date end_date transactions
      in case select_type ''Income'' df of
           Inl e \<Rightarrow> Inl e
         | Inr income_df \<Rightarrow>
             if income_df = [] then Inr (Annotation ''No income data available'')
             else Inr (Pie (groupby_sum (group_sum fl) (\<lambda>r. tx_category (fst r)) income_df)))"

definition date_key :: "date \<Rightarrow> nat \<times> nat \<times> nat" where
  "date_key d = (year d, month d, day d)"

definition create_trend_chart ::
  "(string \<Rightarrow> date option) \<Rightarrow> float_ops \<Rightarrow> date \<Rightarrow> string \<Rightarrow> string option \<Rightarrow>
   string option \<Rightarrow>
   transaction list \<Rightarrow> error + figure" where
  "create_trend_chart pdt fl today period start_date end_date transactions =
     (let df = filter_transactions_by_period pdt today period start_date end_date transactions
      in if empty_df df then Inr (Annotation ''No data available for trend analysis'')
         else
           (let daily_totals =
                  groupby_sum (group_sum fl) (\<lambda>r. (date_key (snd r), tx_type (fst r))) (frame_rows df);
                trace = (\<lambda>ty. (ty, map (\<lambda>(k, a). (fst k, a))
                                        (filter (\<lambda>(k, a). snd k = ty) daily_totals)))
            in Inr (Trend (filter (\<lambda>(ty, points). points \<noteq> [])
                                  (map trace [''Income'', ''Expense''])))))"

definition create_bar_chart ::
  "(string \<Rightarrow> date option) \<Rightarrow> float_ops \<Rightarrow> date \<Rightarrow> string \<Rightarrow> string option \<Rightarrow>
   string option \<Rightarrow>
   transaction list \<Rightarrow> error + figure" where
  "create_bar_chart pdt fl today period start_date end_date transactions =
     (let df = filter_transactions_by_period pdt today period start_date end_date transactions
      in if empty_df df then Inr (Annotation ''No data available'')
         else Inr (Bar (groupby_sum (group_sum fl) (\<lambda>r. (tx_category (fst r), tx_type (fst r)))
                                    (frame_rows df))))"

text \<open>
  \<^verbatim>\<open>update_charts\<close> builds the tuple of the five outputs from left to right; an exception
  in one of them is the result of the call.
\<close>

definition update_charts ::
  "(string \<Rightarrow> date option) \<Rightarrow> float_ops \<Rightarrow> date \<Rightarrow> string \<Rightarrow> string option \<Rightarrow>
   string option \<Rightarrow>
   transaction list \<Rightarrow> error + (summary_cards \<times> figure \<times> figure \<times> figure \<times> figure)" where
  "update_charts pdt fl today period start_date end_date transactions =
     (let s = create_summary_cards pdt fl today period start_date end_date transactions
      in case create_expense_pie_chart pdt fl today period start_date end_date transactions of
           Inl e \<Rightarrow> Inl e
         | Inr ep \<Rightarrow>
             (case create_income_pie_chart pdt fl today period start_date end_date transactions of
                Inl e \<Rightarrow> Inl e
              | Inr ip \<Rightarrow>
                  (case create_trend_chart pdt fl today period start_date end_date transactions of
                     Inl e \<Rightarrow> Inl e
                   | Inr tc \<Rightarrow>
                       (case create_bar_chart pdt fl today period start_date end_date transactions of
                          Inl e \<Rightarrow> Inl e
                        | Inr bc \<Rightarrow> Inr (s, ep, ip, tc, bc)))))"

section \<open>Stand-ins for the library at concrete inputs\<close>









section \<open>Example stores\<close>

text \<open>
  The stores used as concrete inputs: the store after adding an expense of 50 dated
  2024-03-10 and then an income of 1000 dated 2024-03-01; a store whose two entries
  were added at the same clock reading; a store with one entry whose date is written
  with a space-padded day; and a store of three expenses whose amounts are the doubles
  nearest to 0.163, 0.308 and 0.234.
\<close>

definition march_store :: "transaction list" where
  "march_store =
     [\<lparr>tx_id = 1, tx_type = ''Expense'', tx_category = ''Food & Dining'', tx_amount = 50,
       tx_description = ''lunch'', tx_date = ''2024-03-10'',
       tx_timestamp = ''2024-03-15T10:00:00''\<rparr>,
      \<lparr>tx_id = 2, tx_type = ''Income'', tx_category = ''Salary'', tx_amount = 1000,
       tx_description = ''No description'', tx_date = ''2024-03-01'',
       tx_timestamp = ''2024-03-15T10:05:00''\<rparr>]"

definition tie_store :: "transaction list" where
  "tie_store =
     [\<lparr>tx_id = 1, tx_type = ''Expense'', tx_category = ''Transportation'', tx_amount = 20,
       tx_description = ''bus'', tx_date = ''2024-03-10'',
       tx_timestamp = ''2024-03-15T10:00:00''\<rparr>,
      \<lparr>tx_id = 2, tx_type = ''Expense'', tx_category = ''Transportation'', tx_amount = 30,
       tx_description = ''taxi'', tx_date = ''2024-03-10'',
       tx_timestamp = ''2024-03-15T10:00:00''\<rparr>]"



section \<open>Validation\<close>

lemma add_transaction_bad_amount:
  "\<not> amount_ok amount \<Longrightarrow>
   add_transaction pdt srt now ty category amount description date ts =
     ((InvalidAmount, get_recent_transactions pdt srt ts), ts)"
  by (cases amount) (auto simp: add_transaction_def amount_ok_def)

lemma add_transaction_bad_category:
  "amount_ok amount \<Longrightarrow> \<not> category_ok category \<Longrightarrow>
   add_transaction pdt srt now ty category amount description date ts =
     ((MissingCategory, get_recent_transactions pdt srt ts), ts)"
  by (cases amount; cases category) (auto simp: add_transaction_def amount_ok_def category_ok_def)

lemma add_transaction_bad_date:
  "amount_ok amount \<Longrightarrow> category_ok category \<Longrightarrow> \<not> date_ok date \<Longrightarrow>
   add_transaction pdt srt now ty category amount description date ts =
     ((InvalidDate, get_recent_transactions pdt srt ts), ts)"
  by (cases amount; cases category)
     (auto simp: add_transaction_def amount_ok_def category_ok_def date_ok_def)

lemma add_transaction_store_cases:
  "snd (add_transaction pdt srt now ty category amount description date ts) = ts \<or>
   (\<exists>t. snd (add_transaction pdt srt now ty category amount description date ts) = ts @ [t] \<and>
        tx_id t = length ts + 1 \<and> strptime_ymd (tx_date t) \<noteq> None \<and>
        0 < tx_amount t \<and> tx_category t \<noteq> [])"
  by (auto simp: add_transaction_def Let_def split: option.splits)

lemma date_ok_example: "date_ok ''2024-03-10''"
  by (simp add: date_ok_def is_digit_def is_digit19_def digit_val_def valid_date_def
      days_in_month_def DAYS_IN_MONTH_def is_leap_def)

lemma date_bad_example: "\<not> date_ok ''10/03/2024''"
  by (simp add: date_ok_def is_digit_def)

text \<open>
  Claim C10. The three checks run in the order amount, category, date: an input with a
  bad amount gets the amount message whatever the other fields are, an input with a
  good amount and a bad category gets the category message whatever the date is, and
  the date message appears only when amount and category are both good.
\<close>

theorem validation_order:
  "(\<not> amount_ok amount \<longrightarrow>
      fst (fst (add_transaction pdt srt now ty category amount description date ts)) = InvalidAmount) \<and>
   (amount_ok amount \<and> \<not> category_ok category \<longrightarrow>
      fst (fst (add_transaction pdt srt now ty category amount description date ts)) = MissingCategory) \<and>
   (amount_ok amount \<and> category_ok category \<and> \<not> date_ok date \<longrightarrow>
      fst (fst (add_transaction pdt srt now ty category amount description date ts)) = InvalidDate)"
  by (simp add: add_transaction_bad_amount add_transaction_bad_category add_transaction_bad_date)

theorem validation_order_witness:
  "\<not> amount_ok (Some (-5)) \<and> \<not> category_ok (Some []) \<and>
   fst (fst (add_transaction strptime_ymd sort_key ''2024-03-15T10:10:00'' ''Expense'' (Some [])
              (Some (-5)) None ''10/03/2024'' march_store)) = InvalidAmount \<and>
   amount_ok (Some 50) \<and> \<not> category_ok None \<and>
   fst (fst (add_transaction strptime_ymd sort_key ''2024-03-15T10:10:00'' ''Expense'' None
              (Some 50) None ''10/03/2024'' march_store)) = MissingCategory \<and>
   category_ok (Some ''Travel'') \<and> \<not> date_ok ''10/03/2024'' \<and>
   fst (fst (add_transaction strptime_ymd sort_key ''2024-03-15T10:10:00'' ''Expense'' (Some ''Travel'')
              (Some 50) None ''10/03/2024'' march_store)) = InvalidDate"
  using validation_order [of "Some (-5)" strptime_ymd sort_key "''2024-03-15T10:10:00''" "''Expense''"
            "Some []" None "''10/03/2024''" march_store]
        validation_order [of "Some 50" strptime_ymd sort_key "''2024-03-15T10:10:00''" "''Expense''"
            None None "''10/03/2024''" march_store]
        validation_order [of "Some 50" strptime_ymd sort_key "''2024-03-15T10:10:00''" "''Expense''"
            "Some ''Travel''" None "''10/03/2024''" march_store]
        date_bad_example
  by (simp add: amount_ok_def category_ok_def)

text \<open>
  Claim C5. An input whose amount is missing or not positive, whose category is missing
  or empty, or whose date does not parse as YYYY-MM-DD is answered with one of the
  three failure messages, and the store after the call is the store before it.
\<close>

theorem invalid_input_store_unchanged:
  assumes "\<not> amount_ok amount \<or> \<not> category_ok category \<or> \<not> date_ok date"
  shows "is_failure (fst (fst (add_transaction pdt srt now ty category amount description date ts))) \<and>
         snd (add_transaction pdt srt now ty category amount description date ts) = ts"
proof (cases "amount_ok amount")
  case False
  then show ?thesis by (simp add: add_transaction_bad_amount)
next
  case a: True
  show ?thesis
  proof (cases "category_ok category")
    case False
    with a show ?thesis by (simp add: add_transaction_bad_category)
  next
    case True
    with a assms have "\<not> date_ok date" by simp
    with a True show ?thesis by (simp add: add_transaction_bad_date)
  qed
qed

theorem invalid_input_store_unchanged_witness:
  "\<not> amount_ok (Some 0) \<and>
   is_failure (fst (fst (add_transaction strptime_ymd sort_key ''2024-03-15T10:10:00'' ''Expense''
                (Some ''Travel'') (Some 0) None ''2024-03-10'' march_store))) \<and>
   snd (add_transaction strptime_ymd sort_key ''2024-03-15T10:10:00'' ''Expense''
                (Some ''Travel'') (Some 0) None ''2024-03-10'' march_store) = march_store"
proof -
  have h: "\<not> amount_ok (Some 0) \<or> \<not> category_ok (Some ''Travel'') \<or> \<not> date_ok ''2024-03-10''"
    by (simp add: amount_ok_def)
  have a: "\<not> amount_ok (Some 0)"
    by (simp add: amount_ok_def)
  show ?thesis
    using a invalid_input_store_unchanged [OF h, of strptime_ymd sort_key "''2024-03-15T10:10:00''"
        "''Expense''" None march_store]
    by simp
qed

section \<open>Store growth and identifiers\<close>

lemmas parse_eval = is_digit_def is_digit19_def digit_val_def valid_date_def
  days_in_month_def DAYS_IN_MONTH_def is_leap_def

lemma add_transaction_ok:
  assumes "amount = Some a" "0 < a" "category = Some c" "c \<noteq> []" "strptime_ymd date = Some p"
  shows "add_transaction pdt srt now ty category amount description date ts =
     ((Added ty a,
       get_recent_transactions pdt srt
         (ts @ [\<lparr>tx_id = length ts + 1, tx_type = ty, tx_category = c, tx_amount = a,
                 tx_description = (case description of None \<Rightarrow> ''No description''
                                   | Some s \<Rightarrow> if s = [] then ''No description'' else s),
                 tx_date = date, tx_timestamp = now\<rparr>])),
      ts @ [\<lparr>tx_id = length ts + 1, tx_type = ty, tx_category = c, tx_amount = a,
                 tx_description = (case description of None \<Rightarrow> ''No description''
                                   | Some s \<Rightarrow> if s = [] then ''No description'' else s),
                 tx_date = date, tx_timestamp = now\<rparr>])"
  using assms by (simp add: add_transaction_def Let_def)

lemma reachable_ids: "reachable ts \<Longrightarrow> map tx_id ts = [1..<length ts + 1]"
proof (induction rule: reachable.induct)
  case init
  show ?case by simp
next
  case (step ts pdt srt now ty category amount description date out ts')
  have "snd (add_transaction pdt srt now ty category amount description date ts) = ts'"
    using step.hyps(2) by simp
  with add_transaction_store_cases[of pdt srt now ty category amount description date ts]
  show ?case using step.IH by auto
qed

lemma fold_max_upt: "fold max [1..<n + 1] (0::nat) = n"
proof (induction n)
  case 0 show ?case by simp
next
  case (Suc n) then show ?case by simp
qed

lemma reachable_max_id:
  assumes "reachable ts"
  shows "max_id ts = length ts"
proof -
  have "map tx_id ts = [1..<length ts + 1]"
    using assms by (rule reachable_ids)
  then show ?thesis
    unfolding max_id_def by (simp only: fold_max_upt)
qed

lemma reachable_step:
  "reachable ts \<Longrightarrow> reachable (snd (add_transaction pdt srt now ty category amount description date ts))"
  by (rule reachable.step [where out = "fst (add_transaction pdt srt now ty category amount description date ts)"])
     simp_all

lemma reachable_march_store: "reachable march_store"
proof -
  have 1: "snd (add_transaction strptime_ymd sort_key ''2024-03-15T10:00:00'' ''Expense''
                 (Some ''Food & Dining'') (Some 50) (Some ''lunch'') ''2024-03-10'' [])
             = [hd march_store]"
    by (simp add: add_transaction_def Let_def march_store_def parse_eval)
  have 2: "snd (add_transaction strptime_ymd sort_key ''2024-03-15T10:05:00'' ''Income'' (Some ''Salary'')
                 (Some 1000) None ''2024-03-01'' [hd march_store]) = march_store"
    by (simp add: add_transaction_def Let_def march_store_def parse_eval)
  have "reachable [hd march_store]"
    using reachable_step [OF reachable.init] 1 by metis
  then show ?thesis
    using reachable_step 2 by metis
qed

lemma reachable_tie_store: "reachable tie_store"
proof -
  have 1: "snd (add_transaction strptime_ymd sort_key ''2024-03-15T10:00:00'' ''Expense''
                 (Some ''Transportation'') (Some 20) (Some ''bus'') ''2024-03-10'' [])
             = [hd tie_store]"
    by (simp add: add_transaction_def Let_def tie_store_def parse_eval)
  have 2: "snd (add_transaction strptime_ymd sort_key ''2024-03-15T10:00:00'' ''Expense''
                 (Some ''Transportation'') (Some 30) (Some ''taxi'') ''2024-03-10''
                 [hd tie_store]) = tie_store"
    by (simp add: add_transaction_def Let_def tie_store_def parse_eval)
  have "reachable [hd tie_store]"
    using reachable_step [OF reachable.init] 1 by metis
  then show ?thesis
    using reachable_step 2 by metis
qed

text \<open>
  Claim C4. On a store the program can hold, a call with a positive amount, a non-empty
  category and a date that parses as YYYY-MM-DD appends exactly one record: the store
  grows by one, the new record's id is the largest id so far plus one (1 on the empty
  store), and the ids of the store stay distinct and strictly increasing.
\<close>

theorem valid_add_appends_next_id:
  assumes "reachable ts" "amount_ok amount" "category_ok category" "date_ok date"
  shows "\<exists>t. snd (add_transaction pdt srt now ty category amount description date ts) = ts @ [t] \<and>
             length (snd (add_transaction pdt srt now ty category amount description date ts))
               = length ts + 1 \<and>
             tx_id t = max_id ts + 1 \<and>
             \<not> is_failure (fst (fst (add_transaction pdt srt now ty category amount description date ts))) \<and>
             distinct (map tx_id (ts @ [t])) \<and>
             sorted_wrt (<) (map tx_id (ts @ [t]))"
proof -
  obtain a where a: "amount = Some a" "0 < a"
    using assms(2) by (auto simp: amount_ok_def split: option.splits)
  obtain c where c: "category = Some c" "c \<noteq> []"
    using assms(3) by (auto simp: category_ok_def split: option.splits)
  obtain p where p: "strptime_ymd date = Some p"
    using assms(4) by (auto simp: date_ok_def)
  define t where "t = \<lparr>tx_id = length ts + 1, tx_type = ty, tx_category = c, tx_amount = a,
                 tx_description = (case description of None \<Rightarrow> ''No description''
                                   | Some s \<Rightarrow> if s = [] then ''No description'' else s),
                 tx_date = date, tx_timestamp = now\<rparr>"
  have eq: "add_transaction pdt srt now ty category amount description date ts =
            ((Added ty a, get_recent_transactions pdt srt (ts @ [t])), ts @ [t])"
    unfolding t_def by (rule add_transaction_ok [OF a c p])
  have ids: "map tx_id (ts @ [t]) = [1..<length ts + 2]"
    using reachable_ids [OF assms(1)] by (simp add: t_def)
  have "tx_id t = max_id ts + 1"
    using reachable_max_id [OF assms(1)] by (simp add: t_def)
  moreover have "distinct (map tx_id (ts @ [t]))"
    unfolding ids by simp
  moreover have "sorted_wrt (<) (map tx_id (ts @ [t]))"
    unfolding ids by (simp only: sorted_wrt_upt)
  ultimately show ?thesis
    using eq by auto
qed

theorem valid_add_appends_next_id_witness:
  "reachable march_store \<and> amount_ok (Some 20) \<and> category_ok (Some ''Travel'') \<and>
   date_ok ''2024-03-10'' \<and> max_id march_store = 2 \<and>
   map tx_id (snd (add_transaction strptime_ymd sort_key ''2024-03-15T10:10:00'' ''Expense''
                     (Some ''Travel'') (Some 20) None ''2024-03-10'' march_store)) = [1, 2, 3]"
proof -
  have a: "amount_ok (Some 20)" by (simp add: amount_ok_def)
  have c: "category_ok (Some ''Travel'')" by (simp add: category_ok_def)
  have m: "max_id march_store = 2" by (simp add: max_id_def march_store_def)
  have i: "map tx_id march_store = [1, 2]" by (simp add: march_store_def)
  from valid_add_appends_next_id [OF reachable_march_store a c date_ok_example,
      of strptime_ymd sort_key "''2024-03-15T10:10:00''" "''Expense''" None]
  obtain t where
    "snd (add_transaction strptime_ymd sort_key ''2024-03-15T10:10:00'' ''Expense''
            (Some ''Travel'') (Some 20) None ''2024-03-10'' march_store) = march_store @ [t]"
    "tx_id t = max_id march_store + 1"
    by blast
  then show ?thesis
    using reachable_march_store a c date_ok_example m i by simp
qed

section \<open>The category check\<close>

text \<open>
  Claim C1, as stated, fails: \<^verbatim>\<open>add_transaction\<close> does not look at the category lists.
  With type Expense and category "Gift Card", which is not among the expense
  categories, the call succeeds and the record is stored.
\<close>

theorem gift_card_accepted:
  "''Gift Card'' \<notin> set (update_category_choices ''Expense'') \<and>
   fst (fst (add_transaction strptime_ymd sort_key ''2024-03-15T10:10:00'' ''Expense''
               (Some ''Gift Card'') (Some 50) None ''2024-03-10'' march_store))
     = Added ''Expense'' 50 \<and>
   map tx_category (snd (add_transaction strptime_ymd sort_key ''2024-03-15T10:10:00'' ''Expense''
               (Some ''Gift Card'') (Some 50) None ''2024-03-10'' march_store))
     = [''Food & Dining'', ''Salary'', ''Gift Card'']"
  by (simp add: add_transaction_def Let_def update_category_choices_def EXPENSE_CATEGORIES_def
      march_store_def parse_eval)

text \<open>
  Claim C1, amended. With a valid amount and date, the call fails exactly when the
  category is missing or empty; every non-empty category, in the list of the type or
  not, is accepted and stored as given.
\<close>

theorem category_checked_for_emptiness_only:
  assumes "amount_ok amount" "date_ok date"
  shows "(is_failure (fst (fst (add_transaction pdt srt now ty category amount description date ts)))
            \<longleftrightarrow> \<not> category_ok category) \<and>
         (\<forall>c. category = Some c \<and> c \<noteq> [] \<longrightarrow>
            (\<exists>t. snd (add_transaction pdt srt now ty category amount description date ts) = ts @ [t] \<and>
                 tx_category t = c \<and> tx_type t = ty))"
proof -
  obtain a where a: "amount = Some a" "0 < a"
    using assms(1) by (auto simp: amount_ok_def split: option.splits)
  obtain p where p: "strptime_ymd date = Some p"
    using assms(2) by (auto simp: date_ok_def)
  show ?thesis
  proof (cases "category_ok category")
    case False
    then show ?thesis
      using assms(1) by (auto simp: add_transaction_bad_category category_ok_def)
  next
    case True
    then obtain c where c: "category = Some c" "c \<noteq> []"
      by (auto simp: category_ok_def split: option.splits)
    have eq: "add_transaction pdt srt now ty category amount description date ts =
     ((Added ty a,
       get_recent_transactions pdt srt
         (ts @ [\<lparr>tx_id = length ts + 1, tx_type = ty, tx_category = c, tx_amount = a,
                 tx_description = (case description of None \<Rightarrow> ''No description''
                                   | Some s \<Rightarrow> if s = [] then ''No description'' else s),
                 tx_date = date, tx_timestamp = now\<rparr>])),
      ts @ [\<lparr>tx_id = length ts + 1, tx_type = ty, tx_category = c, tx_amount = a,
                 tx_description = (case description of None \<Rightarrow> ''No description''
                                   | Some s \<Rightarrow> if s = [] then ''No description'' else s),
                 tx_date = date, tx_timestamp = now\<rparr>])"
      by (rule add_transaction_ok [OF a c p])
    show ?thesis
      unfolding eq using True c by simp
  qed
qed

theorem category_checked_for_emptiness_only_witness:
  "amount_ok (Some 50) \<and> date_ok ''2024-03-10'' \<and> category_ok (Some ''Gift Card'') \<and>
   ''Gift Card'' \<notin> set EXPENSE_CATEGORIES \<and>
   \<not> is_failure (fst (fst (add_transaction strptime_ymd sort_key ''2024-03-15T10:10:00'' ''Expense''
               (Some ''Gift Card'') (Some 50) None ''2024-03-10'' march_store)))"
proof -
  have a: "amount_ok (Some 50)" by (simp add: amount_ok_def)
  have c: "category_ok (Some ''Gift Card'')" by (simp add: category_ok_def)
  have n: "''Gift Card'' \<notin> set EXPENSE_CATEGORIES" by (simp add: EXPENSE_CATEGORIES_def)
  show ?thesis
    using a c n date_ok_example
      category_checked_for_emptiness_only [OF a date_ok_example, of strptime_ymd sort_key
        "''2024-03-15T10:10:00''" "''Expense''" "Some ''Gift Card''" None march_store]
    by simp
qed

section \<open>Filtering: the empty store, the custom range\<close>


lemma to_datetime_column_snd:
  "to_datetime_column pdt ts = Some df \<Longrightarrow> r \<in> set df \<Longrightarrow> pdt (tx_date (fst r)) = Some (snd r)"
  by (induction ts arbitrary: df) (auto split: option.splits)

lemma filter_empty_store:
  "filter_transactions_by_period pdt today period start_date end_date [] = NoColumns"
  by (simp add: filter_transactions_by_period_def filter_body_def)

lemma march_store_column:
  "to_datetime_column strptime_ymd march_store =
     Some [(march_store ! 0, \<lparr>year = 2024, month = 3, day = 10\<rparr>),
           (march_store ! 1, \<lparr>year = 2024, month = 3, day = 1\<rparr>)]"
  by (simp add: march_store_def parse_eval)

text \<open>
  Claim C9 holds for the summary, the trend chart and the bar chart, and fails for the
  two pie charts on the empty store: the filter returns the frame without columns, the
  pie chart functions read its column \<^verbatim>\<open>type\<close> before they test for emptiness, and
  the \<^verbatim>\<open>KeyError\<close> leaves the function, and \<^verbatim>\<open>update_charts\<close> with it.
\<close>

theorem empty_store_pie_charts_raise:
  "create_summary_cards pdt fl today period start_date end_date [] = NoDataAvailable \<and>
   create_expense_pie_chart pdt fl today period start_date end_date [] = Inl (KeyError ''type'') \<and>
   create_income_pie_chart pdt fl today period start_date end_date [] = Inl (KeyError ''type'') \<and>
   create_trend_chart pdt fl today period start_date end_date []
     = Inr (Annotation ''No data available for trend analysis'') \<and>
   create_bar_chart pdt fl today period start_date end_date [] = Inr (Annotation ''No data available'') \<and>
   update_charts pdt fl today period start_date end_date [] = Inl (KeyError ''type'')"
  by (simp add: create_summary_cards_def create_expense_pie_chart_def
      create_income_pie_chart_def create_trend_chart_def create_bar_chart_def
      update_charts_def filter_empty_store)

text \<open>
  Where the store is not empty and no row falls into the period, the frame has its
  columns and all five outputs are the "no data" ones.
\<close>

lemma empty_window_no_data:
  assumes "filter_transactions_by_period pdt today period start_date end_date ts = Frame []"
  shows "update_charts pdt fl today period start_date end_date ts =
           Inr (NoDataAvailable,
                Annotation ''No expense data available'',
                Annotation ''No income data available'',
                Annotation ''No data available for trend analysis'',
                Annotation ''No data available'')"
  using assms
  by (simp add: create_summary_cards_def create_expense_pie_chart_def
      create_income_pie_chart_def create_trend_chart_def create_bar_chart_def
      update_charts_def)

text \<open>
  Claim C8, as stated, fails: a custom bound that does not parse raises inside the
  \<^verbatim>\<open>try\<close> block, the handler catches it, and the caller receives the empty frame, not
  an error.
\<close>

theorem unparsed_bound_example:
  "strptime_ymd ''2024-03-xx'' = None \<and>
   filter_body strptime_ymd \<lparr>year = 2024, month = 3, day = 15\<rparr> ''Custom Range''
     (Some ''2024-03-xx'') (Some ''2024-03-31'') march_store = Inl ValueError \<and>
   filter_transactions_by_period strptime_ymd \<lparr>year = 2024, month = 3, day = 15\<rparr>
     ''Custom Range'' (Some ''2024-03-xx'') (Some ''2024-03-31'') march_store = NoColumns"
  by (simp add: filter_transactions_by_period_def filter_body_def truthy_def
      march_store_column is_digit_def is_digit19_def) (simp add: march_store_def)

text \<open>
  Claim C8, amended. When both custom bounds are supplied and one of them does not
  parse, the filter returns the empty frame \<^verbatim>\<open>pd.DataFrame()\<close>; no error reaches the
  caller.
\<close>

theorem unparsed_custom_bound_gives_empty_frame:
  assumes "s \<noteq> []" "e \<noteq> []" "pdt s = None \<or> pdt e = None"
  shows "filter_transactions_by_period pdt today ''Custom Range'' (Some s) (Some e) ts = NoColumns"
  using assms
  by (auto simp: filter_transactions_by_period_def filter_body_def truthy_def
      split: option.splits)

theorem unparsed_custom_bound_gives_empty_frame_witness:
  "''2024-03-xx'' \<noteq> [] \<and> ''2024-03-31'' \<noteq> [] \<and> strptime_ymd ''2024-03-xx'' = None \<and>
   filter_transactions_by_period strptime_ymd \<lparr>year = 2024, month = 3, day = 15\<rparr>
     ''Custom Range'' (Some ''2024-03-xx'') (Some ''2024-03-31'') march_store = NoColumns"
proof -
  have n: "strptime_ymd ''2024-03-xx'' = None"
    by (simp add: is_digit_def is_digit19_def)
  have h: "strptime_ymd ''2024-03-xx'' = None \<or> strptime_ymd ''2024-03-31'' = None"
    using n by simp
  have s: "''2024-03-xx'' \<noteq> []" and e: "''2024-03-31'' \<noteq> []"
    by simp_all
  show ?thesis
    using n s e unparsed_custom_bound_gives_empty_frame [OF s e h, of
        "\<lparr>year = 2024, month = 3, day = 15\<rparr>" march_store]
    by simp
qed

lemma unconverted_column_empty_frame:
  assumes "to_datetime_column pdt ts = None"
  shows "filter_transactions_by_period pdt today period start_date end_date ts = NoColumns"
  using assms by (simp add: filter_transactions_by_period_def filter_body_def)









section \<open>Totals\<close>

























section \<open>Recent transactions\<close>

lemma ascending_sort_sort_key: "ascending_sort sort_key"
  by (simp add: ascending_sort_def)

lemma sort_values_desc_sorted:
  assumes "ascending_sort srt"
  shows "sorted_wrt (\<lambda>a b. key b \<le> key a) (sort_values_desc srt key rows)"
proof -
  have "sorted (map key (srt key (rev rows)))"
    using assms by (simp add: ascending_sort_def)
  then have "sorted_wrt (\<lambda>a b. key a \<le> key b) (srt key (rev rows))"
    by (simp add: sorted_wrt_map)
  then show ?thesis
    by (simp add: sort_values_desc_def sorted_wrt_rev)
qed

lemma sort_values_desc_mset:
  assumes "ascending_sort srt"
  shows "mset (sort_values_desc srt key rows) = mset rows"
  using assms by (simp add: sort_values_desc_def ascending_sort_def)

lemma recent_rows_length: "length (recent_rows srt rs) \<le> 10"
  by (simp add: recent_rows_def)

lemma recent_rows_sorted:
  assumes "ascending_sort srt"
  shows "sorted_wrt (\<lambda>a b. tx_timestamp (fst b) \<le> tx_timestamp (fst a)) (recent_rows srt rs)"
  unfolding recent_rows_def
  by (rule sorted_wrt_take) (rule sort_values_desc_sorted [OF assms])

lemma get_recent_transactions_length: "length (get_recent_transactions pdt srt ts) \<le> 10"
  by (simp add: get_recent_transactions_def recent_rows_length split: option.splits)

lemma tie_store_column:
  "to_datetime_column strptime_ymd tie_store =
     Some [(tie_store ! 0, \<lparr>year = 2024, month = 3, day = 10\<rparr>),
           (tie_store ! 1, \<lparr>year = 2024, month = 3, day = 10\<rparr>)]"
  by (simp add: tie_store_def parse_eval)

text \<open>
  Claim C6, as stated, fails in its last part: nothing in the code orders rows of equal
  timestamp by id. Two records added at the same clock reading come out with the
  older one (id 1) first; the sort of the two rows is the insertion sort numpy runs
  on an array this short.
\<close>

theorem equal_timestamps_not_by_id_descending:
  "reachable tie_store \<and>
   map tx_timestamp tie_store = [''2024-03-15T10:00:00'', ''2024-03-15T10:00:00''] \<and>
   map tx_id tie_store = [1, 2] \<and>
   map (tx_id \<circ> fst)
     (recent_rows sort_key [(tie_store ! 0, \<lparr>year = 2024, month = 3, day = 10\<rparr>),
                            (tie_store ! 1, \<lparr>year = 2024, month = 3, day = 10\<rparr>)]) = [1, 2] \<and>
   map Description (get_recent_transactions strptime_ymd sort_key tie_store) = [''bus'', ''taxi'']"
  using reachable_tie_store
  by (simp add: get_recent_transactions_def tie_store_column recent_rows_def
      sort_values_desc_def display_def)
     (simp add: tie_store_def)

text \<open>
  Claim C6, amended. The table of recent transactions has at most 10 rows. For a store
  whose dates convert to the rows \<open>df\<close>, it shows the first 10 rows of \<open>df\<close> rearranged
  into descending order of timestamp, whatever the transaction dates are. The order
  among rows of equal timestamp is whatever the sort leaves: the code has no
  tie-break by id, and nothing is stated about that order.
\<close>

theorem recent_transactions_by_timestamp:
  assumes "ascending_sort srt"
  shows "length (get_recent_transactions pdt srt ts) \<le> 10 \<and>
   (ts \<noteq> [] \<and> to_datetime_column pdt ts = Some df \<longrightarrow>
      get_recent_transactions pdt srt ts = map display (recent_rows srt df)) \<and>
   recent_rows srt df = take 10 (sort_values_desc srt (\<lambda>r. tx_timestamp (fst r)) df) \<and>
   mset (sort_values_desc srt (\<lambda>r. tx_timestamp (fst r)) df) = mset df \<and>
   sorted_wrt (\<lambda>a b. tx_timestamp (fst b) \<le> tx_timestamp (fst a))
     (sort_values_desc srt (\<lambda>r. tx_timestamp (fst r)) df) \<and>
   sorted_wrt (\<lambda>a b. tx_timestamp (fst b) \<le> tx_timestamp (fst a)) (recent_rows srt df)"
proof -
  have "ts \<noteq> [] \<and> to_datetime_column pdt ts = Some df \<longrightarrow>
      get_recent_transactions pdt srt ts = map display (recent_rows srt df)"
    by (simp add: get_recent_transactions_def)
  moreover have "recent_rows srt df = take 10 (sort_values_desc srt (\<lambda>r. tx_timestamp (fst r)) df)"
    by (simp add: recent_rows_def)
  moreover have "sorted_wrt (\<lambda>a b. tx_timestamp (fst b) \<le> tx_timestamp (fst a))
     (sort_values_desc srt (\<lambda>r. tx_timestamp (fst r)) df)"
    using assms by (rule sort_values_desc_sorted)
  ultimately show ?thesis
    using get_recent_transactions_length [of pdt srt ts] recent_rows_sorted [OF assms, of df]
      sort_values_desc_mset [OF assms, of "\<lambda>r. tx_timestamp (fst r)" df]
    by blast
qed

theorem recent_transactions_by_timestamp_witness:
  "ascending_sort sort_key \<and> march_store \<noteq> [] \<and>
   map Date (get_recent_transactions strptime_ymd sort_key march_store)
     = [\<lparr>year = 2024, month = 3, day = 1\<rparr>, \<lparr>year = 2024, month = 3, day = 10\<rparr>] \<and>
   map (\<lambda>r. tx_id (fst r))
     (recent_rows sort_key [(march_store ! 0, \<lparr>year = 2024, month = 3, day = 10\<rparr>),
                            (march_store ! 1, \<lparr>year = 2024, month = 3, day = 1\<rparr>)]) = [2, 1]"
proof -
  have n: "march_store \<noteq> []"
    by (simp add: march_store_def)
  have le: "\<not> ''2024-03-15T10:05:00'' \<le> ''2024-03-15T10:00:00''"
    by (simp add: less_eq_char_def)
  have r: "recent_rows sort_key [(march_store ! 0, \<lparr>year = 2024, month = 3, day = 10\<rparr>),
                   (march_store ! 1, \<lparr>year = 2024, month = 3, day = 1\<rparr>)]
           = [(march_store ! 1, \<lparr>year = 2024, month = 3, day = 1\<rparr>),
              (march_store ! 0, \<lparr>year = 2024, month = 3, day = 10\<rparr>)]"
    using le by (simp add: recent_rows_def sort_values_desc_def march_store_def)
  have "get_recent_transactions strptime_ymd sort_key march_store
          = map display (recent_rows sort_key
                  [(march_store ! 0, \<lparr>year = 2024, month = 3, day = 10\<rparr>),
                   (march_store ! 1, \<lparr>year = 2024, month = 3, day = 1\<rparr>)])"
    using recent_transactions_by_timestamp [OF ascending_sort_sort_key, of strptime_ymd march_store
        "[(march_store ! 0, \<lparr>year = 2024, month = 3, day = 10\<rparr>),
          (march_store ! 1, \<lparr>year = 2024, month = 3, day = 1\<rparr>)]"] n march_store_column
    by simp
  then show ?thesis
    using ascending_sort_sort_key n r by (simp add: display_def march_store_def)
qed

section \<open>Calendar arithmetic\<close>

























section \<open>The named periods\<close>











end
